theory Spec2Isabelle
  imports Main "HOL-Library.Word" "HOL-Library.Sublist"
begin

section \<open>The comparison command of \<^verbatim>\<open>falba/cli.py\<close>: \<^verbatim>\<open>compare\<close>\<close>

subsection \<open>Data model\<close>

text \<open>
  Modelled from the spec: the classes \<^verbatim>\<open>Fact\<close>, \<^verbatim>\<open>Result\<close> and \<^verbatim>\<open>Db\<close> of package
  \<^verbatim>\<open>falba\<close> are used by \<^verbatim>\<open>cli.py\<close> but declared elsewhere. The model keeps exactly the
  attributes that \<^verbatim>\<open>cli.py\<close> reads: \<^verbatim>\<open>fact.value\<close>, \<^verbatim>\<open>result.facts\<close>,
  \<^verbatim>\<open>result.result_id\<close>, \<^verbatim>\<open>db.results\<close>, \<^verbatim>\<open>db.root_dir\<close> and the table returned by
  \<^verbatim>\<open>db.flat_df()\<close>.

  A fact value is a value of the type parameter \<open>'v\<close> (a string, a number or a boolean in
  the spec), compared with HOL equality where the code writes \<^verbatim>\<open>!=\<close>. Python's \<^verbatim>\<open>None\<close>,
  which the code uses as the marker of an absent fact, is not a \<open>'v\<close>: the sets of observed
  values have type \<open>'v option set\<close>, with \<open>None\<close> for the marker.

  Dictionaries are association lists in insertion order, looked up with \<open>map_of\<close>.
\<close>

datatype 'v fact = Fact (fact_name: string) (fact_value: 'v)

record 'v result =
  result_id :: string
  facts :: "(string \<times> 'v fact) list"

text \<open>
  A row of the flat table. The code reads the columns \<^verbatim>\<open>result_id\<close> and \<^verbatim>\<open>metric\<close>; the
  column \<^verbatim>\<open>value\<close> and the fact columns are only passed on to the dataframe library.
\<close>

record row =
  row_result_id :: string
  row_metric :: string

text \<open>
  A path is the list of its components below the root of the filesystem. The table of
  \<^verbatim>\<open>db.flat_df()\<close> is a field of the database: what the method computes is not in
  \<^verbatim>\<open>cli.py\<close>, and the model makes no assumption about it.
\<close>

type_synonym path = "string list"

record 'v db =
  root_dir :: path
  results :: "(string \<times> 'v result) list"
  flat_df :: "row list"

text \<open>
  Every failure of \<^verbatim>\<open>compare\<close> is a Python \<^verbatim>\<open>RuntimeError\<close>; the four raise sites are
  told apart by their message. One constructor stands for each site, with the values that
  the message interpolates:
  \<^item> lines 27-30, the missing facts and the list of extant facts;
  \<^item> lines 53-56, the fact and the set of values seen for it;
  \<^item> line 62;
  \<^item> lines 67-70, the metric and the metrics available in the selected rows.
\<close>

datatype 'v error =
  UnknownFactError "string set" "string list"
| ConfoundingFactError string "'v option set"
| EmptySelectionError
| NoMatchingMetricError string "string set"

subsection \<open>Extant facts (lines 22-25)\<close>

definition extant_facts :: "'v db \<Rightarrow> string set" where
  "extant_facts d =
     fold (\<lambda>r acc. acc \<union> set (map fst (facts r))) (map snd (results d)) {}"

definition missing_facts :: "'v db \<Rightarrow> (string \<times> 'v) list \<Rightarrow> string set" where
  "missing_facts d facts_eq = set (map fst facts_eq) - extant_facts d"

subsection \<open>Filtering (lines 33-39)\<close>

fun include_result :: "(string \<times> 'v) list \<Rightarrow> 'v result \<Rightarrow> bool" where
  "include_result [] r = True"
| "include_result ((name, required_val) # rest) r =
     (case map_of (facts r) name of
        Some f \<Rightarrow> if fact_value f \<noteq> required_val then False else include_result rest r
      | None \<Rightarrow> include_result rest r)"

definition filter_results :: "'v db \<Rightarrow> (string \<times> 'v) list \<Rightarrow> 'v result list" where
  "filter_results d facts_eq = filter (include_result facts_eq) (map snd (results d))"

subsection \<open>The check for uncontrolled facts (lines 43-56)\<close>

text \<open>The inner loop, lines 46-51: the values of one fact over the selected results.\<close>

definition fact_vals :: "string \<Rightarrow> 'v result list \<Rightarrow> 'v option set" where
  "fact_vals fct rs =
     fold (\<lambda>r vals.
             (case map_of (facts r) fct of
                Some f \<Rightarrow> insert (Some (fact_value f)) vals
              | None \<Rightarrow> insert None vals)) rs {}"

text \<open>
  The outer loop runs over the set \<^verbatim>\<open>extant_facts\<close>. Python fixes no iteration order for
  a set, so the order is the list \<open>order\<close>, a parameter: the theorems below hold for every
  enumeration of the set. The first fact that fails the test raises.
\<close>

fun check_facts ::
  "string list \<Rightarrow> (string \<times> 'v) list \<Rightarrow> string \<Rightarrow> 'v result list \<Rightarrow> 'v error option" where
  "check_facts [] facts_eq experiment_fact rs = None"
| "check_facts (fct # rest) facts_eq experiment_fact rs =
     (if fct = experiment_fact \<or> fct \<in> set (map fst facts_eq)
      then check_facts rest facts_eq experiment_fact rs
      else if card (fact_vals fct rs) \<noteq> 1
      then Some (ConfoundingFactError fct (fact_vals fct rs))
      else check_facts rest facts_eq experiment_fact rs)"

subsection \<open>Validation (lines 20-62) and selection of the metric (lines 64-70)\<close>

definition results_df :: "'v db \<Rightarrow> 'v result list \<Rightarrow> row list" where
  "results_df d rs = filter (\<lambda>w. row_result_id w \<in> set (map result_id rs)) (flat_df d)"

definition validate ::
  "string list \<Rightarrow> 'v db \<Rightarrow> (string \<times> 'v) list \<Rightarrow> string \<Rightarrow> 'v error + row list" where
  "validate order d facts_eq experiment_fact =
     (if missing_facts d facts_eq \<noteq> {}
      then Inl (UnknownFactError (missing_facts d facts_eq) order)
      else
        (case check_facts order facts_eq experiment_fact (filter_results d facts_eq) of
           Some e \<Rightarrow> Inl e
         | None \<Rightarrow>
             if results_df d (filter_results d facts_eq) = []
             then Inl EmptySelectionError
             else Inr (results_df d (filter_results d facts_eq))))"

definition aggregate :: "row list \<Rightarrow> string \<Rightarrow> 'v error + row list" where
  "aggregate rdf metric =
     (if filter (\<lambda>w. row_metric w = metric) rdf = []
      then Inl (NoMatchingMetricError metric (set (map row_metric rdf)))
      else Inr (filter (\<lambda>w. row_metric w = metric) rdf))"

definition compare ::
  "string list \<Rightarrow> 'v db \<Rightarrow> (string \<times> 'v) list \<Rightarrow> string \<Rightarrow> string \<Rightarrow> 'v error + row list" where
  "compare order d facts_eq experiment_fact metric =
     (case validate order d facts_eq experiment_fact of
        Inl e \<Rightarrow> Inl e
      | Inr rdf \<Rightarrow> aggregate rdf metric)"

subsection \<open>The values of a fact, as the spec counts them\<close>

text \<open>
  The spec's words for the set that Step 3 inspects: the distinct values a fact takes across
  the selected results, an absent fact counting as the value \<open>None\<close>. The theorems compare
  the loop \<open>fact_vals\<close> with it.
\<close>

definition observed :: "string \<Rightarrow> 'v result list \<Rightarrow> 'v option set" where
  "observed fct rs = (\<lambda>r. map_option fact_value (map_of (facts r) fct)) ` set rs"

section \<open>The import command: \<^verbatim>\<open>import_result\<close>\<close>

subsection \<open>Files and directories\<close>

text \<open>
  \<^verbatim>\<open>import_result\<close> reads and writes the filesystem through \<^verbatim>\<open>pathlib\<close>, \<^verbatim>\<open>os\<close>,
  \<^verbatim>\<open>shutil\<close> and \<^verbatim>\<open>open\<close>. The filesystem is a tree, passed in and returned: a file holds its
  bytes, a directory the list of its entries in the order in which a scan lists them; a new
  entry goes to the end. A test name and a file name are one component of a path each.
  Symbolic links, permissions and the working directory are left out.

  An \<^verbatim>\<open>OSError\<close> is a value of \<open>io_error\<close>, named after the Python exception;
  \<^verbatim>\<open>FileExistsError\<close> is the \<^verbatim>\<open>AlreadyExistsError\<close> of the spec.
\<close>

type_synonym byte = "8 word"
type_synonym bytes = "byte list"

datatype node = File bytes | Dir "(string \<times> node) list"

datatype io_error =
  FileExistsError | FileNotFoundError | NotADirectoryError | IsADirectoryError | SameFileError

text \<open>Following a path from the root, as a system call does.\<close>

fun resolve :: "path \<Rightarrow> node \<Rightarrow> io_error + node" where
  "resolve [] n = Inr n"
| "resolve (c # cs) (File b) = Inl NotADirectoryError"
| "resolve (c # cs) (Dir es) =
     (case map_of es c of None \<Rightarrow> Inl FileNotFoundError | Some m \<Rightarrow> resolve cs m)"


definition is_dir :: "path \<Rightarrow> node \<Rightarrow> bool" where
  "is_dir p fs = (case resolve p fs of Inr (Dir es) \<Rightarrow> True | _ \<Rightarrow> False)"

definition read_file :: "path \<Rightarrow> node \<Rightarrow> io_error + bytes" where
  "read_file p fs =
     (case resolve p fs of
        Inl e \<Rightarrow> Inl e
      | Inr (File b) \<Rightarrow> Inr b
      | Inr (Dir es) \<Rightarrow> Inl IsADirectoryError)"








text \<open>
  \<^verbatim>\<open>shutil.copy(src, dst)\<close>: into \<open>dst\<close> under the name of \<open>src\<close> when \<open>dst\<close> is a directory.
  \<open>path_name\<close> is \<^verbatim>\<open>Path.name\<close>, the last component as a relative path, empty for the root.
\<close>

definition path_name :: "path \<Rightarrow> path" where
  "path_name p = (if p = [] then [] else [last p])"


subsection \<open>The artifacts (lines 95-103)\<close>

text \<open>
  \<^verbatim>\<open>Path.walk\<close> goes top-down: the files of a directory in the order of the scan, then
  its subdirectories in that order. \<open>iter_artifacts\<close> is the generator of lines 95-103 run
  to its end on a filesystem that does not change, which is how the hashing loop uses it:
  the pairs of the current path of a file and its path below \<^verbatim>\<open>artifacts/\<close>.
\<close>

fun file_names :: "(string \<times> node) list \<Rightarrow> string list" where
  "file_names [] = []"
| "file_names ((k, File b) # es) = k # file_names es"
| "file_names ((k, Dir ds) # es) = file_names es"


fun walk_files :: "path \<Rightarrow> node \<Rightarrow> path list"
  and walk_subdirs :: "path \<Rightarrow> (string \<times> node) list \<Rightarrow> path list" where
  "walk_files p (File b) = []"
| "walk_files p (Dir es) = map (\<lambda>k. p @ [k]) (file_names es) @ walk_subdirs p es"
| "walk_subdirs p [] = []"
| "walk_subdirs p ((k, m) # es) =
     (case m of Dir ds \<Rightarrow> walk_files (p @ [k]) m | File b \<Rightarrow> []) @ walk_subdirs p es"

definition iter_artifacts :: "node \<Rightarrow> path list \<Rightarrow> (path \<times> path) list" where
  "iter_artifacts fs artifact_paths =
     concat (map (\<lambda>input_path.
                    if is_dir input_path fs
                    then (case resolve input_path fs of
                            Inr m \<Rightarrow> map (\<lambda>cur_path. (cur_path, drop (length input_path) cur_path))
                                       (walk_files input_path m)
                          | Inl e \<Rightarrow> [])
                    else [(input_path, path_name input_path)])
            artifact_paths)"

subsection \<open>The result directory (lines 105-115)\<close>

text \<open>
  \<^verbatim>\<open>hashlib\<close> is a library: SHA-256 is the parameter \<open>sha256\<close>, a function from bytes to
  bytes. A hash object is the sequence of bytes fed to it so far, \<^verbatim>\<open>update\<close> appends to it,
  and \<^verbatim>\<open>hexdigest\<close> is the digest of that sequence in lower-case hexadecimal digits.
\<close>

fun hash_artifacts ::
  "(bytes \<Rightarrow> bytes) \<Rightarrow> node \<Rightarrow> (path \<times> path) list \<Rightarrow> bytes \<Rightarrow> io_error + bytes" where
  "hash_artifacts sha256 fs [] fed = Inr fed"
| "hash_artifacts sha256 fs ((p, rel) # rest) fed =
     (case read_file p fs of
        Inl e \<Rightarrow> Inl e
      | Inr content \<Rightarrow> hash_artifacts sha256 fs rest (fed @ sha256 content))"

definition hex_digit :: "nat \<Rightarrow> char" where
  "hex_digit n = ''0123456789abcdef'' ! (n mod 16)"

definition hexdigest :: "(bytes \<Rightarrow> bytes) \<Rightarrow> bytes \<Rightarrow> string" where
  "hexdigest sha256 fed =
     concat (map (\<lambda>b. [hex_digit (unat b div 16), hex_digit (unat b mod 16)]) (sha256 fed))"

definition result_dir ::
  "(bytes \<Rightarrow> bytes) \<Rightarrow> 'v db \<Rightarrow> string \<Rightarrow> node \<Rightarrow> path list \<Rightarrow> io_error + path" where
  "result_dir sha256 d test_name fs artifact_paths =
     (case hash_artifacts sha256 fs (iter_artifacts fs artifact_paths) [] of
        Inl e \<Rightarrow> Inl e
      | Inr fed \<Rightarrow> Inr (root_dir d @ [test_name @ '':'' @ take 12 (hexdigest sha256 fed)]))"

subsection \<open>The copy loop (lines 119-126)\<close>



subsection \<open>\<^verbatim>\<open>import_result\<close> (lines 84-128)\<close>


subsection \<open>Two runs of the copy loop side by side\<close>





subsection \<open>Example filesystem\<close>

text \<open>
  The scenario of the spec: a directory \<^verbatim>\<open>in\<close> with the files \<^verbatim>\<open>a.txt\<close> and
  \<^verbatim>\<open>sub/b.txt\<close>, holding the bytes \<^verbatim>\<open>A\<close> and \<^verbatim>\<open>B\<close>; two more files with the same contents
  under other names; the state after importing \<^verbatim>\<open>in\<close> as \<^verbatim>\<open>bench\<close>; and a database in
  which the directory that an import of \<^verbatim>\<open>in\<close> as \<^verbatim>\<open>nightly\<close> would create has been made
  by hand, before and after importing \<^verbatim>\<open>in\<close> as \<^verbatim>\<open>bench\<close>. \<open>sha256_ex\<close> is SHA-256 on the
  three messages that these imports hash, with their true digests.
\<close>

definition sha256_A :: bytes where
  "sha256_A = [0x55, 0x9a, 0xea, 0xd0, 0x82, 0x64, 0xd5, 0x79, 0x5d, 0x39, 0x09, 0x71, 0x8c, 0xdd, 0x05, 0xab,
               0xd4, 0x95, 0x72, 0xe8, 0x4f, 0xe5, 0x55, 0x90, 0xee, 0xf3, 0x1a, 0x88, 0xa0, 0x8f, 0xdf, 0xfd]"

definition sha256_B :: bytes where
  "sha256_B = [0xdf, 0x7e, 0x70, 0xe5, 0x02, 0x15, 0x44, 0xf4, 0x83, 0x4b, 0xbe, 0xe6, 0x4a, 0x9e, 0x37, 0x89,
               0xfe, 0xbc, 0x4b, 0xe8, 0x14, 0x70, 0xdf, 0x62, 0x9c, 0xad, 0x6d, 0xdb, 0x03, 0x32, 0x0a, 0x5c]"

definition sha256_AB :: bytes where
  "sha256_AB = [0x63, 0x95, 0x6f, 0x0c, 0xe4, 0x8e, 0xdc, 0x48, 0xa0, 0xd5, 0x28, 0xcb, 0x0b, 0x5d, 0x58, 0xe4,
                0xd6, 0x25, 0xaf, 0xb1, 0x4d, 0x63, 0xca, 0x1b, 0xb9, 0x95, 0x0e, 0xb6, 0x57, 0xd6, 0x1f, 0x40]"

definition sha256_ex :: "bytes \<Rightarrow> bytes" where
  "sha256_ex m =
     (if m = [0x41] then sha256_A
      else if m = [0x42] then sha256_B
      else if m = sha256_A @ sha256_B then sha256_AB
      else [])"

definition ex_fs :: node where
  "ex_fs =
     Dir [(''results'', Dir []),
          (''in'', Dir [(''a.txt'', File [0x41]), (''sub'', Dir [(''b.txt'', File [0x42])])]),
          (''x'', Dir [(''one'', File [0x41])]),
          (''two'', File [0x42])]"




subsection \<open>Example database\<close>

text \<open>
  The scenario of the spec: three results with facts \<^verbatim>\<open>os\<close> and \<^verbatim>\<open>variant\<close> and a metric
  \<^verbatim>\<open>latency\<close>; a fourth result without \<^verbatim>\<open>os\<close>, and a fifth with a third fact.
\<close>

definition ex_r1 :: "string result" where
  "ex_r1 = \<lparr>result_id = ''bench:r1'',
            facts = [(''os'', Fact ''os'' ''linux''), (''variant'', Fact ''variant'' ''A'')]\<rparr>"

definition ex_r2 :: "string result" where
  "ex_r2 = \<lparr>result_id = ''bench:r2'',
            facts = [(''os'', Fact ''os'' ''linux''), (''variant'', Fact ''variant'' ''B'')]\<rparr>"

definition ex_r3 :: "string result" where
  "ex_r3 = \<lparr>result_id = ''bench:r3'',
            facts = [(''os'', Fact ''os'' ''windows''), (''variant'', Fact ''variant'' ''A'')]\<rparr>"

definition ex_r4 :: "string result" where
  "ex_r4 = \<lparr>result_id = ''bench:r4'', facts = [(''variant'', Fact ''variant'' ''B'')]\<rparr>"

definition ex_rows :: "row list" where
  "ex_rows =
     [\<lparr>row_result_id = ''bench:r1'', row_metric = ''latency''\<rparr>,
      \<lparr>row_result_id = ''bench:r2'', row_metric = ''latency''\<rparr>,
      \<lparr>row_result_id = ''bench:r3'', row_metric = ''latency''\<rparr>]"

definition ex_db :: "string db" where
  "ex_db =
     \<lparr>root_dir = [''results''],
      results = [(''bench:r1'', ex_r1), (''bench:r2'', ex_r2), (''bench:r3'', ex_r3)],
      flat_df = ex_rows\<rparr>"

definition ex_db4 :: "string db" where
  "ex_db4 =
     \<lparr>root_dir = [''results''],
      results = [(''bench:r1'', ex_r1), (''bench:r3'', ex_r3), (''bench:r4'', ex_r4)],
      flat_df = [\<lparr>row_result_id = ''bench:r1'', row_metric = ''latency''\<rparr>,
                 \<lparr>row_result_id = ''bench:r3'', row_metric = ''latency''\<rparr>,
                 \<lparr>row_result_id = ''bench:r4'', row_metric = ''latency''\<rparr>]\<rparr>"

lemmas ex_defs = ex_r1_def ex_r2_def ex_r3_def ex_r4_def ex_rows_def ex_db_def ex_db4_def

definition ex_r5 :: "string result" where
  "ex_r5 = \<lparr>result_id = ''bench:r5'',
            facts = [(''os'', Fact ''os'' ''linux''), (''variant'', Fact ''variant'' ''A''),
                     (''cpu'', Fact ''cpu'' ''x86'')]\<rparr>"

definition ex_db5 :: "string db" where
  "ex_db5 =
     \<lparr>root_dir = [''results''],
      results = [(''bench:r5'', ex_r5)],
      flat_df = [\<lparr>row_result_id = ''bench:r5'', row_metric = ''latency''\<rparr>]\<rparr>"

lemmas ex_defs5 = ex_r5_def ex_db5_def

section \<open>Properties of the comparison command\<close>

subsection \<open>The loops as set expressions\<close>

lemma fold_vals_acc:
  "fold (\<lambda>r vals.
             (case map_of (facts r) fct of
                Some f \<Rightarrow> insert (Some (fact_value f)) vals
              | None \<Rightarrow> insert None vals)) rs acc
   = acc \<union> (\<lambda>r. map_option fact_value (map_of (facts r) fct)) ` set rs"
  by (induction rs arbitrary: acc) (auto split: option.splits)

lemma fact_vals_observed: "fact_vals fct rs = observed fct rs"
  by (simp add: fact_vals_def observed_def fold_vals_acc)

lemma fold_union_acc:
  "fold (\<lambda>r acc. acc \<union> fst ` set (facts r)) rs acc
   = acc \<union> (\<Union>r \<in> set rs. fst ` set (facts r))"
  by (induction rs arbitrary: acc) auto

lemma extant_facts_Union:
  "extant_facts d = (\<Union>r \<in> snd ` set (results d). fst ` set (facts r))"
  by (simp add: extant_facts_def fold_union_acc)

lemma include_result_iff:
  "include_result facts_eq r \<longleftrightarrow>
     (\<forall>(name, required_val) \<in> set facts_eq.
        map_of (facts r) name = None \<or>
        map_option fact_value (map_of (facts r) name) = Some required_val)"
  by (induction facts_eq r rule: include_result.induct) (auto split: option.splits)

lemma check_facts_Some:
  "check_facts order facts_eq ef rs = Some e \<Longrightarrow>
     \<exists>f. e = ConfoundingFactError f (fact_vals f rs) \<and> f \<in> set order \<and> f \<noteq> ef \<and>
         f \<notin> fst ` set facts_eq \<and> card (fact_vals f rs) \<noteq> 1"
  by (induction order) (auto split: if_splits)

lemma check_facts_None:
  "check_facts order facts_eq ef rs = None \<longleftrightarrow>
     (\<forall>f \<in> set order. f \<noteq> ef \<and> f \<notin> fst ` set facts_eq \<longrightarrow> card (fact_vals f rs) = 1)"
  by (induction order) (auto split: if_splits)

lemma card_fact_vals_pos: "rs \<noteq> [] \<Longrightarrow> 1 \<le> card (fact_vals fct rs)"
proof -
  assume "rs \<noteq> []"
  then have "fact_vals fct rs \<noteq> {}" "finite (fact_vals fct rs)"
    by (simp_all add: fact_vals_observed observed_def)
  then have "0 < card (fact_vals fct rs)"
    by (simp add: card_gt_0_iff)
  then show ?thesis by simp
qed

subsection \<open>Which stage raises which error\<close>

lemma aggregate_not_validation_error:
  "aggregate rdf metric \<noteq> Inl (UnknownFactError m a)"
  "aggregate rdf metric \<noteq> Inl (ConfoundingFactError f vs)"
  "aggregate rdf metric \<noteq> Inl EmptySelectionError"
  by (simp_all add: aggregate_def)

lemma compare_validation_error:
  "compare order d facts_eq ef metric = Inl (UnknownFactError m a) \<longleftrightarrow>
     validate order d facts_eq ef = Inl (UnknownFactError m a)"
  "compare order d facts_eq ef metric = Inl (ConfoundingFactError f vs) \<longleftrightarrow>
     validate order d facts_eq ef = Inl (ConfoundingFactError f vs)"
  "compare order d facts_eq ef metric = Inl EmptySelectionError \<longleftrightarrow>
     validate order d facts_eq ef = Inl EmptySelectionError"
  by (auto simp: compare_def aggregate_not_validation_error split: sum.splits)

lemma validate_UnknownFactError:
  "validate order d facts_eq ef = Inl (UnknownFactError m a) \<longleftrightarrow>
     missing_facts d facts_eq \<noteq> {} \<and> m = missing_facts d facts_eq \<and> a = order"
  by (auto simp: validate_def split: option.splits dest: check_facts_Some)

lemma validate_ConfoundingFactError:
  "validate order d facts_eq ef = Inl (ConfoundingFactError f vs) \<longleftrightarrow>
     missing_facts d facts_eq = {} \<and>
     check_facts order facts_eq ef (filter_results d facts_eq) = Some (ConfoundingFactError f vs)"
  by (auto simp: validate_def split: option.splits)

lemma validate_Inr:
  "validate order d facts_eq ef = Inr rdf \<longleftrightarrow>
     missing_facts d facts_eq = {} \<and>
     check_facts order facts_eq ef (filter_results d facts_eq) = None \<and>
     rdf = results_df d (filter_results d facts_eq) \<and> rdf \<noteq> []"
  by (auto simp: validate_def split: option.splits)

subsection \<open>Filtering\<close>

text \<open>
  Claim C3. The filter keeps, in order, exactly the results that satisfy every pair
  \<open>(name, required_val)\<close> of \<^verbatim>\<open>facts_eq\<close> in the permissive sense: the result lacks the fact
  \<open>name\<close>, or the value of its fact \<open>name\<close> equals \<open>required_val\<close>. In particular a result
  that lacks every constrained fact is kept.
\<close>

theorem filter_results_spec:
  "filter_results d facts_eq =
     filter (\<lambda>r. \<forall>(name, required_val) \<in> set facts_eq.
                  map_of (facts r) name = None \<or>
                  map_option fact_value (map_of (facts r) name) = Some required_val)
            (map snd (results d))
   \<and> (\<forall>r \<in> snd ` set (results d).
        (\<forall>(name, required_val) \<in> set facts_eq. map_of (facts r) name = None)
        \<longrightarrow> r \<in> set (filter_results d facts_eq))"
proof -
  have "include_result facts_eq =
          (\<lambda>r. \<forall>(name, required_val) \<in> set facts_eq.
                  map_of (facts r) name = None \<or>
                  map_option fact_value (map_of (facts r) name) = Some required_val)"
    by (rule ext) (rule include_result_iff)
  then have "filter_results d facts_eq =
     filter (\<lambda>r. \<forall>(name, required_val) \<in> set facts_eq.
                  map_of (facts r) name = None \<or>
                  map_option fact_value (map_of (facts r) name) = Some required_val)
            (map snd (results d))"
    by (simp add: filter_results_def)
  moreover have "\<forall>r \<in> snd ` set (results d).
        (\<forall>(name, required_val) \<in> set facts_eq. map_of (facts r) name = None)
        \<longrightarrow> r \<in> set (filter_results d facts_eq)"
  proof (intro ballI impI)
    fix r
    assume r: "r \<in> snd ` set (results d)"
      and absent: "\<forall>(name, required_val) \<in> set facts_eq. map_of (facts r) name = None"
    from absent have "include_result facts_eq r"
      unfolding include_result_iff by blast
    with r show "r \<in> set (filter_results d facts_eq)"
      by (simp add: filter_results_def)
  qed
  ultimately show ?thesis
    by (rule conjI)
qed

theorem filter_results_spec_witness:
  "filter_results ex_db4 [(''os'', ''linux'')] = [ex_r1, ex_r4]
   \<and> map_of (facts ex_r4) ''os'' = None"
  using filter_results_spec [of ex_db4 "[(''os'', ''linux'')]"]
  by (simp add: ex_defs)

subsection \<open>Unknown facts\<close>

text \<open>
  Claim C4. \<^verbatim>\<open>compare\<close> fails with the unknown-fact error if and only if some key of
  \<^verbatim>\<open>facts_eq\<close> is not a fact name of any result of the whole database; the error carries
  exactly the missing keys, and a list whose elements are exactly the fact names of the
  database.
\<close>

theorem unknown_fact_error_iff:
  assumes "set order = extant_facts d"
  shows "((\<exists>m a. compare order d facts_eq ef metric = Inl (UnknownFactError m a)) \<longleftrightarrow>
            (\<exists>name \<in> fst ` set facts_eq.
               name \<notin> (\<Union>r \<in> snd ` set (results d). fst ` set (facts r))))
       \<and> (\<forall>m a. compare order d facts_eq ef metric = Inl (UnknownFactError m a) \<longrightarrow>
            m = {name \<in> fst ` set facts_eq.
                   name \<notin> (\<Union>r \<in> snd ` set (results d). fst ` set (facts r))}
            \<and> set a = (\<Union>r \<in> snd ` set (results d). fst ` set (facts r)))"
proof -
  have m: "missing_facts d facts_eq =
             {name \<in> fst ` set facts_eq.
                name \<notin> (\<Union>r \<in> snd ` set (results d). fst ` set (facts r))}"
    by (auto simp: missing_facts_def extant_facts_Union)
  have "(\<exists>m a. compare order d facts_eq ef metric = Inl (UnknownFactError m a)) \<longleftrightarrow>
          missing_facts d facts_eq \<noteq> {}"
    by (simp add: compare_validation_error validate_UnknownFactError)
  also have "\<dots> \<longleftrightarrow> (\<exists>name \<in> fst ` set facts_eq.
               name \<notin> (\<Union>r \<in> snd ` set (results d). fst ` set (facts r)))"
    unfolding m by blast
  finally have first: "(\<exists>m a. compare order d facts_eq ef metric = Inl (UnknownFactError m a)) \<longleftrightarrow>
            (\<exists>name \<in> fst ` set facts_eq.
               name \<notin> (\<Union>r \<in> snd ` set (results d). fst ` set (facts r)))" .
  have second: "\<forall>m a. compare order d facts_eq ef metric = Inl (UnknownFactError m a) \<longrightarrow>
            m = {name \<in> fst ` set facts_eq.
                   name \<notin> (\<Union>r \<in> snd ` set (results d). fst ` set (facts r))}
            \<and> set a = (\<Union>r \<in> snd ` set (results d). fst ` set (facts r))"
    using assms m by (simp add: compare_validation_error validate_UnknownFactError extant_facts_Union)
  from first second show ?thesis by (rule conjI)
qed

theorem unknown_fact_error_iff_witness:
  "set [''os'', ''variant''] = extant_facts ex_db
   \<and> (\<exists>m a. compare [''os'', ''variant''] ex_db [(''typo'', ''x''), (''os'', ''linux'')]
                ''variant'' ''latency'' = Inl (UnknownFactError m a))
   \<and> compare [''os'', ''variant''] ex_db [(''typo'', ''x''), (''os'', ''linux'')]
                ''variant'' ''latency'' = Inl (UnknownFactError {''typo''} [''os'', ''variant''])"
proof -
  have h: "set [''os'', ''variant''] = extant_facts ex_db"
    by (auto simp: extant_facts_def ex_defs)
  have "\<exists>name \<in> fst ` set [(''typo'', ''x''), (''os'', ''linux'')].
          name \<notin> (\<Union>r \<in> snd ` set (results ex_db). fst ` set (facts r))"
    by (simp add: ex_defs)
  with unknown_fact_error_iff
         [OF h, of "[(''typo'', ''x''), (''os'', ''linux'')]" "''variant''" "''latency''"]
  have "\<exists>m a. compare [''os'', ''variant''] ex_db [(''typo'', ''x''), (''os'', ''linux'')]
                ''variant'' ''latency'' = Inl (UnknownFactError m a)"
    by blast
  moreover have "compare [''os'', ''variant''] ex_db [(''typo'', ''x''), (''os'', ''linux'')]
                ''variant'' ''latency'' = Inl (UnknownFactError {''typo''} [''os'', ''variant''])"
    by (auto simp: compare_def validate_def missing_facts_def extant_facts_def ex_defs)
  ultimately show ?thesis
    using h by blast
qed

subsection \<open>Confounding facts\<close>

text \<open>
  Claim C1, amended. When every key of \<^verbatim>\<open>facts_eq\<close> is a fact name of the database and the
  filtered result list is not empty, \<^verbatim>\<open>compare\<close> fails with the confounding-fact error if
  and only if some fact name of the database, other than the experiment fact and the keys of
  \<^verbatim>\<open>facts_eq\<close>, takes more than one value across the filtered results, absence counting as
  a value of its own; the error names such a fact and carries the set of values observed
  for it.
\<close>

theorem confounding_fact_error_iff:
  assumes order: "set order = extant_facts d"
    and known: "fst ` set facts_eq \<subseteq> extant_facts d"
    and nonempty: "filter_results d facts_eq \<noteq> []"
  shows "((\<exists>f vs. compare order d facts_eq ef metric = Inl (ConfoundingFactError f vs)) \<longleftrightarrow>
            (\<exists>f \<in> (\<Union>r \<in> snd ` set (results d). fst ` set (facts r)).
               f \<noteq> ef \<and> f \<notin> fst ` set facts_eq \<and>
               1 < card (observed f (filter_results d facts_eq))))
       \<and> (\<forall>f vs. compare order d facts_eq ef metric = Inl (ConfoundingFactError f vs) \<longrightarrow>
            f \<in> (\<Union>r \<in> snd ` set (results d). fst ` set (facts r)) \<and>
            f \<noteq> ef \<and> f \<notin> fst ` set facts_eq \<and>
            vs = observed f (filter_results d facts_eq) \<and> 1 < card vs)"
proof -
  define rs where "rs = filter_results d facts_eq"
  define E where "E = (\<Union>r \<in> snd ` set (results d). fst ` set (facts r))"
  define K where "K = fst ` set facts_eq"
  have E: "set order = E"
    using order by (simp add: extant_facts_Union E_def)
  have miss: "missing_facts d facts_eq = {}"
    using known by (auto simp: missing_facts_def)
  have pos: "card (fact_vals f rs) \<noteq> 1 \<longleftrightarrow> 1 < card (observed f rs)" for f
    using card_fact_vals_pos [OF nonempty, of f] unfolding rs_def fact_vals_observed by linarith
  have cmp: "compare order d facts_eq ef metric = Inl (ConfoundingFactError f vs) \<longleftrightarrow>
        check_facts order facts_eq ef rs = Some (ConfoundingFactError f vs)" for f vs
    by (simp add: compare_validation_error validate_ConfoundingFactError miss rs_def)
  have sound: "f \<in> E \<and> f \<noteq> ef \<and> f \<notin> K \<and> vs = observed f rs \<and> 1 < card vs"
    if "compare order d facts_eq ef metric = Inl (ConfoundingFactError f vs)" for f vs
  proof -
    from that have "check_facts order facts_eq ef rs = Some (ConfoundingFactError f vs)"
      by (simp only: cmp)
    from check_facts_Some [OF this]
    have "f \<in> set order" "f \<noteq> ef" "f \<notin> K" "vs = fact_vals f rs" "card (fact_vals f rs) \<noteq> 1"
      by (simp_all add: K_def)
    then show ?thesis
      using E pos [of f] by (simp add: fact_vals_observed)
  qed
  have complete: "\<exists>f vs. compare order d facts_eq ef metric = Inl (ConfoundingFactError f vs)"
    if "\<exists>f \<in> E. f \<noteq> ef \<and> f \<notin> K \<and> 1 < card (observed f rs)"
  proof -
    from that obtain f where f: "f \<in> set order" "f \<noteq> ef" "f \<notin> fst ` set facts_eq"
        "card (fact_vals f rs) \<noteq> 1"
      using E pos unfolding K_def by blast
    have "check_facts order facts_eq ef rs \<noteq> None"
    proof
      assume "check_facts order facts_eq ef rs = None"
      then have "\<forall>f \<in> set order. f \<noteq> ef \<and> f \<notin> fst ` set facts_eq \<longrightarrow> card (fact_vals f rs) = 1"
        by (simp only: check_facts_None)
      with f show False by blast
    qed
    then obtain e where e: "check_facts order facts_eq ef rs = Some e"
      by blast
    from check_facts_Some [OF e] obtain g where "e = ConfoundingFactError g (fact_vals g rs)"
      by blast
    with e have "compare order d facts_eq ef metric = Inl (ConfoundingFactError g (fact_vals g rs))"
      by (simp only: cmp)
    then show ?thesis by blast
  qed
  have "(\<exists>f vs. compare order d facts_eq ef metric = Inl (ConfoundingFactError f vs)) \<longleftrightarrow>
            (\<exists>f \<in> E. f \<noteq> ef \<and> f \<notin> K \<and> 1 < card (observed f rs))"
    using sound complete by blast
  moreover have "\<forall>f vs. compare order d facts_eq ef metric = Inl (ConfoundingFactError f vs) \<longrightarrow>
            f \<in> E \<and> f \<noteq> ef \<and> f \<notin> K \<and> vs = observed f rs \<and> 1 < card vs"
    using sound by blast
  ultimately show ?thesis
    unfolding E_def K_def rs_def by (rule conjI)
qed

theorem confounding_fact_error_iff_witness:
  "set [''variant'', ''os''] = extant_facts ex_db
   \<and> fst ` set ([] :: (string \<times> string) list) \<subseteq> extant_facts ex_db
   \<and> filter_results ex_db [] \<noteq> []
   \<and> (\<exists>f vs. compare [''variant'', ''os''] ex_db [] ''variant'' ''latency''
                = Inl (ConfoundingFactError f vs))"
proof -
  have h1: "set [''variant'', ''os''] = extant_facts ex_db"
    by (auto simp: extant_facts_def ex_defs)
  have h2: "fst ` set ([] :: (string \<times> string) list) \<subseteq> extant_facts ex_db"
    by simp
  have h3: "filter_results ex_db [] \<noteq> []"
    by (simp add: filter_results_def ex_defs)
  have "observed ''os'' (filter_results ex_db []) = {Some ''linux'', Some ''windows''}"
    by (auto simp: observed_def filter_results_def ex_defs)
  then have "1 < card (observed ''os'' (filter_results ex_db []))"
    by simp
  then have "\<exists>f \<in> (\<Union>r \<in> snd ` set (results ex_db). fst ` set (facts r)).
               f \<noteq> ''variant'' \<and> f \<notin> fst ` set ([] :: (string \<times> string) list) \<and>
               1 < card (observed f (filter_results ex_db []))"
    by (auto simp: ex_db_def ex_r1_def)
  with confounding_fact_error_iff [OF h1 h2 h3, of "''variant''" "''latency''"] h1 h2 h3
  show ?thesis by blast
qed

text \<open>
  Claim C1 as stated, without the condition on the keys of \<^verbatim>\<open>facts_eq\<close>, fails: with the
  unknown key \<^verbatim>\<open>typo\<close> the filtered list is not empty and \<^verbatim>\<open>os\<close> takes two values, but
  the error raised is the unknown-fact error of lines 27-30.
\<close>

theorem confounding_unknown_key_counterexample:
  "filter_results ex_db [(''typo'', ''x'')] \<noteq> []
   \<and> ''os'' \<in> extant_facts ex_db \<and> ''os'' \<noteq> ''variant''
   \<and> ''os'' \<notin> fst ` set [(''typo'', ''x'')]
   \<and> card (observed ''os'' (filter_results ex_db [(''typo'', ''x'')])) = 2
   \<and> compare [''variant'', ''os''] ex_db [(''typo'', ''x'')] ''variant'' ''latency''
       = Inl (UnknownFactError {''typo''} [''variant'', ''os''])"
proof -
  have "observed ''os'' (filter_results ex_db [(''typo'', ''x'')]) = {Some ''linux'', Some ''windows''}"
    by (auto simp: observed_def filter_results_def ex_defs)
  then have "card (observed ''os'' (filter_results ex_db [(''typo'', ''x'')])) = 2"
    by simp
  moreover have "filter_results ex_db [(''typo'', ''x'')] \<noteq> []"
    by (simp add: filter_results_def ex_defs)
  moreover have "''os'' \<in> extant_facts ex_db"
    by (simp add: extant_facts_def ex_defs)
  moreover have "compare [''variant'', ''os''] ex_db [(''typo'', ''x'')] ''variant'' ''latency''
       = Inl (UnknownFactError {''typo''} [''variant'', ''os''])"
    by (auto simp: compare_def validate_def missing_facts_def extant_facts_def ex_defs)
  ultimately show ?thesis by simp
qed

subsection \<open>Empty selections\<close>

text \<open>
  With known keys and nothing selected, the loop of lines 43-56 sees no value for any fact:
  it raises for the first unconstrained fact other than the experiment fact, and line 62 is
  reached only when there is none.
\<close>

lemma validate_empty_filtered:
  assumes order: "set order = extant_facts d"
    and known: "fst ` set facts_eq \<subseteq> extant_facts d"
    and empty: "filter_results d facts_eq = []"
  shows "(validate order d facts_eq ef = Inl EmptySelectionError \<longleftrightarrow>
            (\<forall>f \<in> extant_facts d. f = ef \<or> f \<in> fst ` set facts_eq))
       \<and> ((\<exists>f. validate order d facts_eq ef = Inl (ConfoundingFactError f {})) \<longleftrightarrow>
            (\<exists>f \<in> extant_facts d. f \<noteq> ef \<and> f \<notin> fst ` set facts_eq))"
proof -
  have miss: "missing_facts d facts_eq = {}"
    using known by (auto simp: missing_facts_def)
  have none: "check_facts order facts_eq ef [] = None \<longleftrightarrow>
                (\<forall>f \<in> extant_facts d. f = ef \<or> f \<in> fst ` set facts_eq)"
    unfolding check_facts_None using order by (auto simp: fact_vals_def)
  have rows: "results_df d [] = []"
    by (simp add: results_df_def)
  have first: "validate order d facts_eq ef = Inl EmptySelectionError \<longleftrightarrow>
            (\<forall>f \<in> extant_facts d. f = ef \<or> f \<in> fst ` set facts_eq)"
  proof (cases "check_facts order facts_eq ef []")
    case None
    with none miss empty rows show ?thesis
      by (simp add: validate_def)
  next
    case (Some e)
    from check_facts_Some [OF Some] obtain f where "e = ConfoundingFactError f (fact_vals f [])"
      by blast
    with Some none miss empty show ?thesis
      by (auto simp: validate_def)
  qed
  have second: "(\<exists>f. validate order d facts_eq ef = Inl (ConfoundingFactError f {})) \<longleftrightarrow>
            (\<exists>f \<in> extant_facts d. f \<noteq> ef \<and> f \<notin> fst ` set facts_eq)"
  proof (cases "check_facts order facts_eq ef []")
    case None
    with none miss empty rows show ?thesis
      by (auto simp: validate_def)
  next
    case (Some e)
    from check_facts_Some [OF Some] obtain f where "e = ConfoundingFactError f (fact_vals f [])"
      by blast
    moreover have "fact_vals f [] = {}"
      by (simp add: fact_vals_def)
    ultimately have "validate order d facts_eq ef = Inl (ConfoundingFactError f {})"
      using Some miss empty by (simp add: validate_def)
    moreover from Some none have "\<exists>f \<in> extant_facts d. f \<noteq> ef \<and> f \<notin> fst ` set facts_eq"
      by auto
    ultimately show ?thesis by blast
  qed
  from first second show ?thesis by (rule conjI)
qed

text \<open>
  Claim C2: with known keys, an empty filtered result list gives the empty-selection error.
  The code does not do so: the loop of lines 43-56 runs before the test of line 61 and
  raises whenever the number of values seen is not 1, so also when it is 0. With the one
  result \<^verbatim>\<open>os=linux, variant=A, cpu=x86\<close> and the constraint \<^verbatim>\<open>os=windows\<close>, nothing is
  selected and the error is the confounding-fact error for \<^verbatim>\<open>cpu\<close>, with the empty set of
  values.
\<close>

theorem empty_selection_reported_as_confounding:
  "fst ` set [(''os'', ''windows'')] \<subseteq> extant_facts ex_db5
   \<and> filter_results ex_db5 [(''os'', ''windows'')] = []
   \<and> validate [''os'', ''variant'', ''cpu''] ex_db5 [(''os'', ''windows'')] ''variant''
       = Inl (ConfoundingFactError ''cpu'' {})
   \<and> compare [''os'', ''variant'', ''cpu''] ex_db5 [(''os'', ''windows'')] ''variant'' ''latency''
       = Inl (ConfoundingFactError ''cpu'' {})"
proof -
  have e: "extant_facts ex_db5 = {''os'', ''variant'', ''cpu''}"
    by (auto simp: extant_facts_def ex_defs5)
  have f: "filter_results ex_db5 [(''os'', ''windows'')] = []"
    by (simp add: filter_results_def ex_defs5)
  have v: "validate [''os'', ''variant'', ''cpu''] ex_db5 [(''os'', ''windows'')] ''variant''
       = Inl (ConfoundingFactError ''cpu'' {})"
    by (simp add: validate_def missing_facts_def e f fact_vals_def)
  from e f v show ?thesis
    by (simp add: compare_def)
qed

subsection \<open>Metric selection\<close>



subsection \<open>The experiment fact is not checked\<close>

text \<open>
  Claim C9. Whether the experiment fact is a fact name of the database plays no part in
  validation: when the keys of \<^verbatim>\<open>facts_eq\<close> all exist, every other unconstrained fact takes
  one value and some row is selected, validation succeeds, also for an experiment fact that
  no result carries, and no unknown-fact error is raised.
\<close>

theorem experiment_fact_not_checked:
  assumes order: "set order = extant_facts d"
    and known: "fst ` set facts_eq \<subseteq> extant_facts d"
    and controlled: "\<forall>f \<in> extant_facts d. f \<noteq> ef \<and> f \<notin> fst ` set facts_eq \<longrightarrow>
                       card (observed f (filter_results d facts_eq)) = 1"
    and rows: "results_df d (filter_results d facts_eq) \<noteq> []"
  shows "validate order d facts_eq ef = Inr (results_df d (filter_results d facts_eq))
       \<and> compare order d facts_eq ef metric
           = aggregate (results_df d (filter_results d facts_eq)) metric
       \<and> (\<forall>m a. compare order d facts_eq ef metric \<noteq> Inl (UnknownFactError m a))"
proof -
  have miss: "missing_facts d facts_eq = {}"
    using known by (auto simp: missing_facts_def)
  have "check_facts order facts_eq ef (filter_results d facts_eq) = None"
    unfolding check_facts_None using order controlled by (simp add: fact_vals_observed)
  with miss rows have v: "validate order d facts_eq ef = Inr (results_df d (filter_results d facts_eq))"
    by (simp add: validate_Inr)
  then have "compare order d facts_eq ef metric
           = aggregate (results_df d (filter_results d facts_eq)) metric"
    by (simp add: compare_def)
  moreover have "\<forall>m a. compare order d facts_eq ef metric \<noteq> Inl (UnknownFactError m a)"
    using miss by (simp add: compare_validation_error validate_UnknownFactError)
  ultimately show ?thesis
    using v by simp
qed

theorem experiment_fact_not_checked_witness:
  "''compiler'' \<notin> extant_facts ex_db
   \<and> validate [''os'', ''variant''] ex_db [(''variant'', ''B'')] ''compiler''
       = Inr [\<lparr>row_result_id = ''bench:r2'', row_metric = ''latency''\<rparr>]"
proof -
  let ?fe = "[(''variant'', ''B'')]"
  have e: "extant_facts ex_db = {''os'', ''variant''}"
    by (auto simp: extant_facts_def ex_defs)
  have f: "filter_results ex_db ?fe = [ex_r2]"
    by (simp add: filter_results_def ex_defs)
  have r: "results_df ex_db [ex_r2] = [\<lparr>row_result_id = ''bench:r2'', row_metric = ''latency''\<rparr>]"
    by (simp add: results_df_def ex_defs)
  have h1: "set [''os'', ''variant''] = extant_facts ex_db"
    by (simp add: e)
  have h2: "fst ` set ?fe \<subseteq> extant_facts ex_db"
    by (simp add: e)
  have h3: "\<forall>f \<in> extant_facts ex_db. f \<noteq> ''compiler'' \<and> f \<notin> fst ` set ?fe \<longrightarrow>
                       card (observed f (filter_results ex_db ?fe)) = 1"
    by (simp add: e f observed_def)
  have h4: "results_df ex_db (filter_results ex_db ?fe) \<noteq> []"
    by (simp add: f r)
  from experiment_fact_not_checked [OF h1 h2 h3 h4, of "''latency''"] e
  show ?thesis by (simp add: f r)
qed

section \<open>Properties of the import command\<close>

subsection \<open>The hashing loop\<close>

lemma hash_artifacts_readable:
  "map (\<lambda>a. read_file (fst a) fs) arts = map Inr contents \<Longrightarrow>
     hash_artifacts sha256 fs arts fed = Inr (fed @ concat (map sha256 contents))"
proof (induction arts arbitrary: fed contents)
  case Nil
  then show ?case by simp
next
  case (Cons a arts)
  then obtain c cs where cs: "contents = c # cs"
    by (cases contents) auto
  obtain p rel where a: "a = (p, rel)"
    by (cases a)
  from Cons.prems cs a have "read_file p fs = Inr c"
    and "map (\<lambda>a. read_file (fst a) fs) arts = map Inr cs"
    by simp_all
  with Cons.IH [of cs "fed @ sha256 c"] show ?case
    by (simp add: a cs)
qed


lemma result_dir_readable:
  "map (\<lambda>a. read_file (fst a) fs) (iter_artifacts fs artifact_paths) = map Inr contents \<Longrightarrow>
     result_dir sha256 d test_name fs artifact_paths =
       Inr ((root_dir d) @ [test_name @ '':'' @ take 12 (hexdigest sha256 (concat (map sha256 contents)))])"
  by (simp add: result_dir_def hash_artifacts_readable)







subsection \<open>Paths in a changed filesystem\<close>






















subsection \<open>File, directory or error\<close>








subsection \<open>Creating a directory\<close>





subsection \<open>What the copy loop leaves alone\<close>










subsection \<open>The same import into another directory\<close>













subsection \<open>Evaluation of the example\<close>

lemma ex_contents_in:
  "map (\<lambda>a. read_file (fst a) ex_fs) (iter_artifacts ex_fs [[''in'']]) = map Inr [[0x41], [0x42]]"
  by code_simp

lemma ex_contents_files:
  "map (\<lambda>a. read_file (fst a) ex_fs) (iter_artifacts ex_fs [[''x'', ''one''], [''two'']])
     = map Inr [[0x41], [0x42]]"
  by code_simp



subsection \<open>The name of the result directory\<close>



subsection \<open>The hash reads contents only\<close>

text \<open>
  Claim C10. Two imports whose enumerated artifacts have the same contents in the same order
  feed the same bytes to the hash and compute the same result directory for the same test
  name, whatever the names and the places of the files. In the witness a directory with a
  subdirectory and two single files under other names give the same directory.
\<close>

theorem result_dir_depends_on_contents_only:
  assumes "map (\<lambda>a. read_file (fst a) fs1) (iter_artifacts fs1 paths1) = map Inr contents"
    and "map (\<lambda>a. read_file (fst a) fs2) (iter_artifacts fs2 paths2) = map Inr contents"
  shows "hash_artifacts sha256 fs1 (iter_artifacts fs1 paths1) []
           = hash_artifacts sha256 fs2 (iter_artifacts fs2 paths2) []
       \<and> result_dir sha256 d test_name fs1 paths1
           = result_dir sha256 d test_name fs2 paths2
       \<and> (\<exists>rd. result_dir sha256 d test_name fs1 paths1 = Inr rd)"
  using assms by (simp add: result_dir_readable hash_artifacts_readable)

theorem result_dir_depends_on_contents_only_witness:
  "map (\<lambda>a. read_file (fst a) ex_fs) (iter_artifacts ex_fs [[''in'']]) = map Inr [[0x41], [0x42]]
   \<and> map (\<lambda>a. read_file (fst a) ex_fs) (iter_artifacts ex_fs [[''x'', ''one''], [''two'']])
       = map Inr [[0x41], [0x42]]
   \<and> map snd (iter_artifacts ex_fs [[''in'']]) = [[''a.txt''], [''sub'', ''b.txt'']]
   \<and> map snd (iter_artifacts ex_fs [[''x'', ''one''], [''two'']]) = [[''one''], [''two'']]
   \<and> result_dir sha256_ex ex_db ''bench'' ex_fs [[''in'']]
       = result_dir sha256_ex ex_db ''bench'' ex_fs [[''x'', ''one''], [''two'']]"
proof -
  have "map snd (iter_artifacts ex_fs [[''in'']]) = [[''a.txt''], [''sub'', ''b.txt'']]"
    by code_simp
  moreover have "map snd (iter_artifacts ex_fs [[''x'', ''one''], [''two'']]) = [[''one''], [''two'']]"
    by code_simp
  ultimately show ?thesis
    using result_dir_depends_on_contents_only
            [OF ex_contents_in ex_contents_files, of sha256_ex ex_db "''bench''"]
      ex_contents_in ex_contents_files
    by simp
qed

subsection \<open>At most one import of an artifact set under a name\<close>




end
